theory Spec2Isabelle
  imports Complex_Main "HOL-Library.Multiset" "HOL-Library.Char_ord" "HOL-Library.List_Lexorder"
    "HOL-Library.Product_Lexorder"
begin

section \<open>Transcript parser and reconciliation engine (extract\_information.py)\<close>

text \<open>
  Conventions of the embedding.
  \<^item> A Python \<open>str\<close> is a \<open>string\<close>; a \<open>char\<close> stands for a code point below 256, and
    the character classes below are Python's on that range.
  \<^item> A Python \<open>float\<close> is a \<open>rat\<close>: decimal literals and parsed decimals are exact,
    arithmetic is exact, and there is no NaN and no infinity. Binary rounding error is outside
    the model.
  \<^item> \<open>None\<close> is \<open>None\<close>; an exception is a value of \<open>py_error\<close> on the left of a sum.
\<close>

subsection \<open>Strings: the built-ins the code calls\<close>

definition is_space :: "char \<Rightarrow> bool" where
  \<comment> \<open>\<open>str.isspace\<close> and the regex class \<open>\s\<close>: tab, LF, VT, FF, CR, FS, GS, RS, US, space, NEL, NBSP\<close>
  "is_space c = ((of_char c :: nat) \<in> {9, 10, 11, 12, 13, 28, 29, 30, 31, 32, 133, 160})"

definition is_digit :: "char \<Rightarrow> bool" where
  \<comment> \<open>the regex class \<open>\d\<close>\<close>
  "is_digit c = (c \<in> set ''0123456789'')"

definition is_letter :: "char \<Rightarrow> bool" where
  \<comment> \<open>the regex class \<open>[A-Za-z]\<close>\<close>
  "is_letter c = (c \<in> set ''ABCDEFGHIJKLMNOPQRSTUVWXYZabcdefghijklmnopqrstuvwxyz'')"

definition is_alnum :: "char \<Rightarrow> bool" where
  \<comment> \<open>the regex class \<open>[A-Za-z0-9]\<close>\<close>
  "is_alnum c = (is_letter c \<or> is_digit c)"

definition is_word :: "char \<Rightarrow> bool" where
  \<comment> \<open>the regex class \<open>\w\<close>, which decides \<open>\b\<close>: alphanumeric code points and the underscore\<close>
  "is_word c =
     (is_alnum c \<or> c = CHR ''_'' \<or>
      (let n = (of_char c :: nat) in
         n = 170 \<or> n = 178 \<or> n = 179 \<or> n = 181 \<or> n = 185 \<or> n = 186 \<or>
         (188 \<le> n \<and> n \<le> 190) \<or> (192 \<le> n \<and> n \<le> 214) \<or>
         (216 \<le> n \<and> n \<le> 246) \<or> 248 \<le> n))"

fun split_acc :: "string \<Rightarrow> string \<Rightarrow> string list" where
  "split_acc cur [] = (if cur = [] then [] else [cur])"
| "split_acc cur (c # cs) =
     (if is_space c then (if cur = [] then split_acc [] cs else cur # split_acc [] cs)
      else split_acc (cur @ [c]) cs)"

definition py_split :: "string \<Rightarrow> string list" where
  \<comment> \<open>\<open>s.split()\<close>: the maximal runs of non-whitespace, in order\<close>
  "py_split s = split_acc [] s"

definition py_strip :: "string \<Rightarrow> string" where
  \<comment> \<open>\<open>s.strip()\<close>\<close>
  "py_strip s = rev (dropWhile is_space (rev (dropWhile is_space s)))"

fun py_join :: "string \<Rightarrow> string list \<Rightarrow> string" where
  "py_join sep [] = []"
| "py_join sep [x] = x"
| "py_join sep (x # y # ys) = x @ sep @ py_join sep (y # ys)"

fun contains :: "string \<Rightarrow> string \<Rightarrow> bool" where
  \<comment> \<open>\<open>sub in s\<close>\<close>
  "contains sub [] = (sub = [])"
| "contains sub (c # cs) = (take (length sub) (c # cs) = sub \<or> contains sub cs)"

fun before_sep :: "string \<Rightarrow> string \<Rightarrow> string" where
  \<comment> \<open>\<open>s.split(sep)[0]\<close> for a non-empty \<open>sep\<close>: what stands before its first occurrence\<close>
  "before_sep sep [] = []"
| "before_sep sep (c # cs) =
     (if take (length sep) (c # cs) = sep then [] else c # before_sep sep cs)"

subsection \<open>The three patterns\<close>

definition COURSE_CODE_RE :: "string \<Rightarrow> bool" where
  \<comment> \<open>\<open>^[A-Za-z]{2,5}[A-Za-z0-9]{0,4}\d{3,5}[A-Za-z0-9]{0,3}$\<close>: some way of cutting the token in four\<close>
  "COURSE_CODE_RE s =
     list_ex (\<lambda>a. list_ex (\<lambda>b. list_ex (\<lambda>c. list_ex (\<lambda>d.
        length s = a + b + c + d \<and>
        list_all is_letter (take a s) \<and>
        list_all is_alnum (take b (drop a s)) \<and>
        list_all is_digit (take c (drop (a + b) s)) \<and>
        list_all is_alnum (drop (a + b + c) s))
      [0 ..< 4]) [3 ..< 6]) [0 ..< 5]) [2 ..< 6]"

definition CREDIT_RE :: "string \<Rightarrow> bool" where
  \<comment> \<open>\<open>^\d+\.\d$\<close>\<close>
  "CREDIT_RE s =
     (3 \<le> length s \<and> is_digit (last s) \<and> last (butlast s) = CHR ''.'' \<and>
      list_all is_digit (butlast (butlast s)))"

definition SEM_RE :: "string \<Rightarrow> bool" where
  \<comment> \<open>\<open>^\d{4}/[12]$\<close>\<close>
  "SEM_RE s =
     (length s = 6 \<and> list_all is_digit (take 4 s) \<and> s ! 4 = CHR ''/'' \<and>
      (s ! 5 = CHR ''1'' \<or> s ! 5 = CHR ''2''))"

definition digit_val :: "char \<Rightarrow> nat" where
  "digit_val c = of_char c - 48"

definition digits_val :: "string \<Rightarrow> nat" where
  "digits_val ds = foldl (\<lambda>a c. 10 * a + digit_val c) 0 ds"

definition credit_float :: "string \<Rightarrow> rat" where
  \<comment> \<open>\<open>float(t)\<close> on a token \<open>t\<close> that matches \<open>CREDIT_RE\<close>: its decimal value\<close>
  "credit_float s =
     of_nat (digits_val (butlast (butlast s))) + of_nat (digit_val (last s)) / 10"

subsection \<open>Tables and the course record\<close>

definition GRADE_TO_POINT :: "(string \<times> rat) list" where
  "GRADE_TO_POINT =
     [(''A+'', 43 / 10), (''A'', 4), (''A-'', 37 / 10),
      (''B+'', 33 / 10), (''B'', 3), (''B-'', 27 / 10),
      (''C+'', 23 / 10), (''C'', 2),
      (''D+'', 13 / 10), (''D'', 1),
      (''F'', 0)]"

definition NON_FINAL_RESULTS :: "string list" where
  "NON_FINAL_RESULTS = [''R'', ''#'', ''W'']"

definition NO_GRADE_RESULTS :: "string list" where
  "NO_GRADE_RESULTS = [''RC'']"

text \<open>The field \<open>section\<close> of the dataclass is \<open>section_label\<close> here (\<open>section\<close> is a keyword).\<close>

record CourseRecord =
  course_code :: string
  course_title :: string
  credits :: rat
  result :: string
  year_sem :: string
  duplicate :: bool
  section_label :: string
  status :: string
  grade_point :: "rat option"

subsection \<open>Section tracker\<close>

definition header_phrases :: "string list" where
  "header_phrases = [''Compulsory'', ''COMP Elective'', ''Free elective'', ''WIE'']"

definition phrase_here :: "string \<Rightarrow> string \<Rightarrow> bool" where
  \<comment> \<open>the phrase, then \<open>\b\<close>: the end of the line or a character that is not of a word\<close>
  "phrase_here r p =
     (take (length p) r = p \<and>
      (case drop (length p) r of [] \<Rightarrow> True | c # _ \<Rightarrow> \<not> is_word c))"

definition header_match :: "string \<Rightarrow> string option" where
  \<comment> \<open>\<open>re.match(r"^\d+/\d+\s+(Compulsory|COMP Elective|Free elective|WIE)\b", line)\<close>, group 1\<close>
  "header_match line =
     (let d1 = takeWhile is_digit line; r1 = dropWhile is_digit line in
      if d1 = [] then None
      else case r1 of
        [] \<Rightarrow> None
      | c # r1' \<Rightarrow>
          if c \<noteq> CHR ''/'' then None
          else
            let d2 = takeWhile is_digit r1'; r2 = dropWhile is_digit r1' in
            if d2 = [] then None
            else
              let w = takeWhile is_space r2; r3 = dropWhile is_space r2 in
              if w = [] then None
              else find (phrase_here r3) header_phrases)"

definition detect_section :: "string \<Rightarrow> string \<Rightarrow> string" where
  "detect_section line current =
     (if py_strip line = ''Major/DSR'' then ''Major/DSR''
      else case header_match line of
        Some p \<Rightarrow>
          (if contains ''Major/DSR'' current then before_sep '' - '' current @ '' - '' @ p else p)
      | None \<Rightarrow>
          if py_strip line \<in> {''GUR'', ''LCR''} then py_strip line
          else if contains ''(Service Learning)'' line then ''Service Learning''
          else if contains ''(LIPD)'' line then ''LIPD''
          else if contains ''(LCR-Chinese)'' line then ''LCR-Chinese''
          else if contains ''(LCR-English)'' line then ''LCR-English''
          else current)"

text \<open>
  The values the variable \<open>section\<close> of \<open>main\<close> takes, one after each line: every line
  is given to \<open>detect_section\<close> with the value left by the line before.
\<close>

fun track :: "string \<Rightarrow> string list \<Rightarrow> string list" where
  "track current [] = []"
| "track current (line # lines) =
     detect_section line current # track (detect_section line current) lines"

definition section_values :: "string \<Rightarrow> string set" where
  \<comment> \<open>what a header can set the section to, when the section was \<open>c\<close>\<close>
  "section_values c =
     {''Major/DSR'', ''GUR'', ''LCR'', ''Service Learning'', ''LIPD'', ''LCR-Chinese'',
      ''LCR-English''} \<union> set header_phrases \<union>
     (\<lambda>p. before_sep '' - '' c @ '' - '' @ p) ` set header_phrases"

subsection \<open>Result classifier and line parser\<close>

definition classify_result :: "string \<Rightarrow> string \<times> rat option" where
  "classify_result res =
     (if res = '''' then (''unknown'', None)
      else case map_of GRADE_TO_POINT res of
        Some p \<Rightarrow> (''included'', Some p)
      | None \<Rightarrow>
          if res \<in> set NON_FINAL_RESULTS then (''excluded'', None)
          else if res \<in> set NO_GRADE_RESULTS then (''excluded'', None)
          else (''unknown'', None))"

fun first_credit :: "nat \<Rightarrow> string list \<Rightarrow> nat option" where
  \<comment> \<open>the loop over \<open>range(1, len(tokens))\<close>, started as \<open>first_credit 1 (tl tokens)\<close>\<close>
  "first_credit i [] = None"
| "first_credit i (t # ts) = (if CREDIT_RE t then Some i else first_credit (Suc i) ts)"

definition strip_duplicate :: "string list \<Rightarrow> bool \<times> string list" where
  "strip_duplicate rest =
     (if rest \<noteq> [] \<and> last rest = ''Y'' then (True, butlast rest) else (False, rest))"

definition strip_term :: "string list \<Rightarrow> string \<times> string list" where
  "strip_term rest =
     (if rest \<noteq> [] \<and> SEM_RE (last rest) then (last rest, butlast rest) else ('''', rest))"

definition take_result :: "string list \<Rightarrow> string" where
  "take_result rest = (case rest of [] \<Rightarrow> '''' | t # _ \<Rightarrow> t)"

definition parse_course_from_line :: "string \<Rightarrow> string \<Rightarrow> CourseRecord option" where
  "parse_course_from_line line sec =
     (case py_split line of
        [] \<Rightarrow> None
      | code # after \<Rightarrow>
          if \<not> COURSE_CODE_RE code then None
          else case first_credit 1 after of
            None \<Rightarrow> None
          | Some credit_idx \<Rightarrow>
              let tokens = code # after;
                  title = py_strip (py_join '' '' (take (credit_idx - 1) (drop 1 tokens)));
                  cr = credit_float (tokens ! credit_idx);
                  rest = drop (credit_idx + 1) tokens;
                  (dup, rest1) = strip_duplicate rest;
                  (ys, rest2) = strip_term rest1;
                  res = take_result rest2;
                  (st, gp) = classify_result res
              in Some \<lparr> course_code = code, course_title = title, credits = cr,
                        result = res, year_sem = ys, duplicate = dup,
                        section_label = sec, status = st, grade_point = gp \<rparr>)"

subsection \<open>Deduplicator\<close>

definition score :: "CourseRecord \<Rightarrow> nat \<times> nat" where
  \<comment> \<open>the tuple \<open>(s1, s2)\<close>; tuples are compared lexicographically, as pairs are here\<close>
  "score r =
     (if status r = ''included'' then 2 else (if status r = ''excluded'' then 1 else 0),
      if year_sem r \<noteq> [] then 1 else 0)"

record dedup_log =
  log_course_code :: string
  dropped_section :: string
  kept_section :: string
  reason :: string

fun dict_set :: "'k \<Rightarrow> 'v \<Rightarrow> ('k \<times> 'v) list \<Rightarrow> ('k \<times> 'v) list" where
  \<comment> \<open>\<open>d[k] = v\<close> on a dict in insertion order: a new key goes last, a known key keeps its place\<close>
  "dict_set k v [] = [(k, v)]"
| "dict_set k v ((k', v') # kvs) =
     (if k' = k then (k, v) # kvs else (k', v') # dict_set k v kvs)"

fun dedup_loop ::
  "CourseRecord list \<Rightarrow> (string \<times> CourseRecord) list \<Rightarrow> dedup_log list
     \<Rightarrow> (string \<times> CourseRecord) list \<times> dedup_log list" where
  "dedup_loop [] chosen dropped_logs = (chosen, dropped_logs)"
| "dedup_loop (r # rs) chosen dropped_logs =
     (let key = course_code r in
      case map_of chosen key of
        None \<Rightarrow> dedup_loop rs (dict_set key r chosen) dropped_logs
      | Some c \<Rightarrow>
          if score r > score c then
            dedup_loop rs (dict_set key r chosen)
              (dropped_logs @
                 [\<lparr> log_course_code = course_code c, dropped_section = section_label c,
                     kept_section = section_label r,
                     reason = ''dedup_replaced_with_higher_priority_record'' \<rparr>])
          else
            dedup_loop rs chosen
              (dropped_logs @
                 [\<lparr> log_course_code = course_code r, dropped_section = section_label r,
                     kept_section = section_label c,
                     reason = ''dedup_dropped_lower_priority_record'' \<rparr>]))"

definition dedup_by_course_code :: "CourseRecord list \<Rightarrow> CourseRecord list \<times> dedup_log list" where
  "dedup_by_course_code records =
     (let (chosen, dropped_logs) = dedup_loop records [] [] in (map snd chosen, dropped_logs))"

text \<open>
  The specification's wording of the resolution, for comparison with the loop: within the
  records of one code, in input order, the first is kept tentatively and a later one replaces
  it only with a strictly higher score.
\<close>

fun resolve :: "CourseRecord \<Rightarrow> CourseRecord list \<Rightarrow> CourseRecord" where
  "resolve kept [] = kept"
| "resolve kept (r # rs) = (if score kept < score r then resolve r rs else resolve kept rs)"

definition same_code :: "string \<Rightarrow> CourseRecord list \<Rightarrow> CourseRecord list" where
  "same_code k records = filter (\<lambda>r. course_code r = k) records"

definition record_ref :: "CourseRecord \<Rightarrow> string \<times> string" where
  "record_ref r = (course_code r, section_label r)"

definition log_ref :: "dedup_log \<Rightarrow> string \<times> string" where
  "log_ref l = (log_course_code l, dropped_section l)"

subsection \<open>Aggregator\<close>

datatype py_error = ZeroDivisionError | ValueError

definition py_div :: "rat \<Rightarrow> rat \<Rightarrow> py_error + rat" where
  "py_div a b = (if b = 0 then Inl ZeroDivisionError else Inr (a / b))"

definition round_half_even :: "rat \<Rightarrow> int" where
  "round_half_even q =
     (let f = \<lfloor>q\<rfloor>; d = q - of_int f in
      if d < 1 / 2 then f else if 1 / 2 < d then f + 1 else if even f then f else f + 1)"

definition py_round :: "rat \<Rightarrow> nat \<Rightarrow> rat" where
  \<comment> \<open>\<open>round(x, n)\<close>: to \<open>n\<close> decimal places, a tie going to the even neighbour\<close>
  "py_round x n = of_int (round_half_even (x * 10 ^ n)) / 10 ^ n"

record cgpa_info =
  current_cgpa :: "rat option"
  total_credits_counted :: rat
  grade_points_sum :: rat

definition included :: "CourseRecord list \<Rightarrow> CourseRecord list" where
  "included records = filter (\<lambda>r. status r = ''included'' \<and> grade_point r \<noteq> None) records"

definition total_credits :: "CourseRecord list \<Rightarrow> rat" where
  "total_credits records = sum_list (map credits (included records))"

definition total_gp :: "CourseRecord list \<Rightarrow> rat" where
  \<comment> \<open>\<open>the\<close> is applied to records of \<open>included\<close> only, whose grade point is not \<open>None\<close>\<close>
  "total_gp records = sum_list (map (\<lambda>r. credits r * the (grade_point r)) (included records))"

definition compute_cgpa :: "CourseRecord list \<Rightarrow> py_error + cgpa_info" where
  "compute_cgpa records =
     (if total_credits records > 0 then
        (case py_div (total_gp records) (total_credits records) of
           Inl e \<Rightarrow> Inl e
         | Inr cgpa \<Rightarrow>
             Inr \<lparr> current_cgpa = Some (py_round cgpa 3),
                   total_credits_counted = py_round (total_credits records) 1,
                   grade_points_sum = py_round (total_gp records) 3 \<rparr>)
      else
        Inr \<lparr> current_cgpa = None,
              total_credits_counted = py_round (total_credits records) 1,
              grade_points_sum = py_round (total_gp records) 3 \<rparr>)"

record goal_info =
  goal_cgpa :: rat
  total_required_credits :: rat
  remaining_credits :: rat
  required_average_gp :: "rat option"
  required_letter_equivalent :: "string option"

definition bands :: "(string \<times> rat) list" where
  "bands =
     [(''A+'', 43 / 10), (''A'', 4), (''A-'', 37 / 10),
      (''B+'', 33 / 10), (''B'', 3), (''B-'', 27 / 10),
      (''C+'', 23 / 10), (''C'', 2)]"

fun min_loop :: "('a \<Rightarrow> rat) \<Rightarrow> 'a \<Rightarrow> 'a list \<Rightarrow> 'a" where
  "min_loop key best [] = best"
| "min_loop key best (x # xs) =
     (if key x < key best then min_loop key x xs else min_loop key best xs)"

definition py_min :: "'a list \<Rightarrow> ('a \<Rightarrow> rat) \<Rightarrow> py_error + 'a" where
  \<comment> \<open>\<open>min(xs, key=key)\<close>: the first element of least key; \<open>ValueError\<close> on an empty list\<close>
  "py_min xs key = (case xs of [] \<Rightarrow> Inl ValueError | x # rest \<Rightarrow> Inr (min_loop key x rest))"

definition compute_goal_strategy :: "rat \<Rightarrow> rat \<Rightarrow> rat \<Rightarrow> rat \<Rightarrow> py_error + goal_info" where
  "compute_goal_strategy current_gp_sum current_credits total_required goal =
     (let remaining = total_required - current_credits;
          needed_total_gp = total_required * goal;
          needed_from_remaining = needed_total_gp - current_gp_sum
      in
      if remaining > 0 then
        (case py_div needed_from_remaining remaining of
           Inl e \<Rightarrow> Inl e
         | Inr required_avg \<Rightarrow>
             (case py_min bands (\<lambda>b. \<bar>snd b - required_avg\<bar>) of
                Inl e \<Rightarrow> Inl e
              | Inr closest \<Rightarrow>
                  Inr \<lparr> goal_cgpa = goal, total_required_credits = total_required,
                        remaining_credits = py_round remaining 1,
                        required_average_gp = Some (py_round required_avg 3),
                        required_letter_equivalent = Some (''~'' @ fst closest) \<rparr>))
      else
        Inr \<lparr> goal_cgpa = goal, total_required_credits = total_required,
              remaining_credits = py_round remaining 1,
              required_average_gp = None,
              required_letter_equivalent = None \<rparr>)"

subsection \<open>Sample records\<close>

text \<open>Three records, two of them for one course code, on which the theorems are run.\<close>

definition rec_unknown :: CourseRecord where
  "rec_unknown =
     \<lparr> course_code = ''COMP1234'', course_title = ''Intro to Computing'', credits = 3,
       result = '''', year_sem = '''', duplicate = False,
       section_label = ''Major/DSR - COMP Elective'', status = ''unknown'', grade_point = None \<rparr>"

definition rec_excluded :: CourseRecord where
  "rec_excluded =
     \<lparr> course_code = ''AMA1100'', course_title = ''Calculus'', credits = 3,
       result = ''R'', year_sem = '''', duplicate = False,
       section_label = ''GUR'', status = ''excluded'', grade_point = None \<rparr>"

definition rec_included :: CourseRecord where
  "rec_included =
     \<lparr> course_code = ''COMP1234'', course_title = ''Intro to Computing'', credits = 3,
       result = ''B'', year_sem = ''2023/1'', duplicate = False,
       section_label = ''Major/DSR - Compulsory'', status = ''included'', grade_point = Some 3 \<rparr>"

text \<open>Two included records whose credit-weighted mean, 10.3 / 3, has no finite decimal expansion.\<close>

definition rec_a_plus :: CourseRecord where
  "rec_a_plus =
     \<lparr> course_code = ''COMP1011'', course_title = ''Programming'', credits = 1,
       result = ''A+'', year_sem = ''2023/1'', duplicate = False,
       section_label = ''GUR'', status = ''included'', grade_point = Some (43 / 10) \<rparr>"

definition rec_b :: CourseRecord where
  "rec_b =
     \<lparr> course_code = ''COMP2011'', course_title = ''Data Structures'', credits = 2,
       result = ''B'', year_sem = ''2023/2'', duplicate = False,
       section_label = ''GUR'', status = ''included'', grade_point = Some 3 \<rparr>"

subsection \<open>Line normalizer\<close>



subsection \<open>Orchestrator\<close>






datatype stage = Normalize | Parse | Dedup | Aggregate | Project rat



definition rec_odd :: CourseRecord where
  \<comment> \<open>a record with two decimal places of credit, which no transcript line yields\<close>
  "rec_odd =
     \<lparr> course_code = ''COMP3011'', course_title = ''Seminar'', credits = 26 / 100,
       result = ''A+'', year_sem = ''2024/1'', duplicate = False,
       section_label = ''GUR'', status = ''included'', grade_point = Some (43 / 10) \<rparr>"


section \<open>Result classifier\<close>

text \<open>
  Claim C4. \<open>classify_result\<close> is the fixed case table: the empty string is unknown with no
  grade point; each of the eleven letter grades is included with its point on the 4.3 scale;
  R, \#, W and RC are excluded with no grade point; every other token is unknown with no
  grade point, and nothing fails.
\<close>

theorem classify_result_table:
  "classify_result '''' = (''unknown'', None) \<and>
   classify_result ''A+'' = (''included'', Some (43 / 10)) \<and>
   classify_result ''A'' = (''included'', Some 4) \<and>
   classify_result ''A-'' = (''included'', Some (37 / 10)) \<and>
   classify_result ''B+'' = (''included'', Some (33 / 10)) \<and>
   classify_result ''B'' = (''included'', Some 3) \<and>
   classify_result ''B-'' = (''included'', Some (27 / 10)) \<and>
   classify_result ''C+'' = (''included'', Some (23 / 10)) \<and>
   classify_result ''C'' = (''included'', Some 2) \<and>
   classify_result ''D+'' = (''included'', Some (13 / 10)) \<and>
   classify_result ''D'' = (''included'', Some 1) \<and>
   classify_result ''F'' = (''included'', Some 0) \<and>
   classify_result ''R'' = (''excluded'', None) \<and>
   classify_result ''#'' = (''excluded'', None) \<and>
   classify_result ''W'' = (''excluded'', None) \<and>
   classify_result ''RC'' = (''excluded'', None) \<and>
   (res \<notin> {'''', ''A+'', ''A'', ''A-'', ''B+'', ''B'', ''B-'', ''C+'', ''C'', ''D+'', ''D'', ''F'',
             ''R'', ''#'', ''W'', ''RC''}
      \<longrightarrow> classify_result res = (''unknown'', None))"
  by (simp add: classify_result_def GRADE_TO_POINT_def NON_FINAL_RESULTS_def NO_GRADE_RESULTS_def)

theorem classify_result_table_witness:
  "classify_result ''P'' = (''unknown'', None) \<and>
   classify_result ''A-'' = (''included'', Some (37 / 10))"
  using classify_result_table [of "''P''"] by simp

section \<open>Line parser\<close>

lemma classify_coupling:
  "classify_result res = (st, gp) \<Longrightarrow>
     (gp \<noteq> None \<longleftrightarrow> st = ''included'') \<and>
     (st = ''included'' \<longleftrightarrow> res \<in> fst ` set GRADE_TO_POINT)"
  unfolding classify_result_def
  by (auto simp: GRADE_TO_POINT_def split: if_splits option.splits)

lemma parse_scenario:
  "parse_course_from_line ''COMP1234 Intro to Computing 3.0 A- 2023/1'' ''GUR'' =
     Some \<lparr> course_code = ''COMP1234'', course_title = ''Intro to Computing'', credits = 3,
            result = ''A-'', year_sem = ''2023/1'', duplicate = False,
            section_label = ''GUR'', status = ''included'', grade_point = Some (37 / 10) \<rparr>"
  by code_simp

text \<open>
  Claim C2. Whatever the line and the section, a record returned by
  \<open>parse_course_from_line\<close> has a grade point exactly when its status is included, and
  its status is included exactly when its result is a key of the grade table.
\<close>

theorem parse_coupling:
  assumes "parse_course_from_line line sec = Some r"
  shows "(grade_point r \<noteq> None \<longleftrightarrow> status r = ''included'') \<and>
         (status r = ''included'' \<longleftrightarrow> result r \<in> fst ` set GRADE_TO_POINT)"
proof -
  obtain st gp where c: "classify_result (result r) = (st, gp)" and s: "status r = st"
    and g: "grade_point r = gp"
    using assms
    by (auto simp: parse_course_from_line_def Let_def
        split: list.splits if_splits option.splits prod.splits)
  from classify_coupling [OF c] s g show ?thesis by simp
qed

theorem parse_coupling_witness:
  "parse_course_from_line ''COMP1234 Intro to Computing 3.0 A- 2023/1'' ''GUR'' \<noteq> None \<and>
   grade_point (the (parse_course_from_line ''COMP1234 Intro to Computing 3.0 A- 2023/1'' ''GUR''))
     = Some (37 / 10) \<and>
   status (the (parse_course_from_line ''COMP1234 Intro to Computing 3.0 A- 2023/1'' ''GUR''))
     = ''included'' \<and>
   ''A-'' \<in> fst ` set GRADE_TO_POINT"
  using parse_coupling [OF parse_scenario] by (simp add: parse_scenario)

section \<open>Section tracker\<close>

lemma header_match_phrase: "header_match line = Some p \<Longrightarrow> p \<in> set header_phrases"
  by (auto simp: header_match_def Let_def find_Some_iff split: if_splits list.splits)

lemma detect_section_cases:
  "detect_section line c \<in> section_values c \<or> detect_section line c = c"
  unfolding detect_section_def section_values_def
  by (auto split: option.splits dest: header_match_phrase)

lemma not_unknown_values: "''UNKNOWN'' \<notin> section_values c"
proof
  assume a: "''UNKNOWN'' \<in> section_values c"
  have "CHR '' '' \<notin> set ''UNKNOWN''" by simp
  moreover have "CHR '' '' \<in> set (before_sep '' - '' c @ '' - '' @ p)" for p by simp
  ultimately show False using a
    unfolding section_values_def header_phrases_def by auto
qed

lemma detect_section_unknown:
  "detect_section line c = ''UNKNOWN'' \<Longrightarrow> c = ''UNKNOWN''"
  using detect_section_cases [of line c] not_unknown_values [of c] by auto

lemma track_never_reverts:
  "c \<noteq> ''UNKNOWN'' \<Longrightarrow> ''UNKNOWN'' \<notin> set (track c lines)"
proof (induction lines arbitrary: c)
  case Nil
  then show ?case by simp
next
  case (Cons l ls)
  have "detect_section l c \<noteq> ''UNKNOWN''"
    using Cons.prems detect_section_unknown by blast
  with Cons.IH show ?case by simp
qed

lemma length_track: "length (track c lines) = length lines"
  by (induction lines arbitrary: c) simp_all

lemma track_drop:
  "i < length lines \<Longrightarrow>
     drop (Suc i) (track c lines) = track (track c lines ! i) (drop (Suc i) lines)"
proof (induction lines arbitrary: c i)
  case Nil
  then show ?case by simp
next
  case (Cons l ls)
  then show ?case by (cases i) simp_all
qed

lemma track_later:
  assumes "i \<le> j" "j < length lines" "track c lines ! i \<noteq> ''UNKNOWN''"
  shows "track c lines ! j \<noteq> ''UNKNOWN''"
proof (cases "i = j")
  case True
  with assms show ?thesis by simp
next
  case False
  with assms have lt: "i < j" and il: "i < length lines" by simp_all
  have "track c lines ! j = drop (Suc i) (track c lines) ! (j - Suc i)"
    using lt assms(2) by (simp add: length_track)
  also have "\<dots> \<in> set (drop (Suc i) (track c lines))"
    using lt assms(2) by (intro nth_mem) (simp add: length_track)
  finally have "track c lines ! j \<in> set (track (track c lines ! i) (drop (Suc i) lines))"
    using track_drop [OF il] by simp
  with track_never_reverts [OF assms(3)] show ?thesis by metis
qed

lemma track_example:
  "track ''UNKNOWN''
     [''Transcript'', ''GUR'', ''COMP1000 X 3.0 A'', ''Major/DSR'', ''3/9 Compulsory'',
      ''1/2 WIE'', ''UNKNOWN''] =
   [''UNKNOWN'', ''GUR'', ''GUR'', ''Major/DSR'', ''Major/DSR - Compulsory'',
    ''Major/DSR - WIE'', ''Major/DSR - WIE'']"
  by code_simp

text \<open>
  Claim C10. For every line and current section \<open>c\<close>, \<open>detect_section\<close> returns one of
  the header-derived strings (\<open>Major/DSR\<close>, a matched phrase, the prefix of \<open>c\<close> joined to a
  matched phrase, \<open>GUR\<close>, \<open>LCR\<close>, \<open>Service Learning\<close>, \<open>LIPD\<close>, \<open>LCR-Chinese\<close>,
  \<open>LCR-English\<close>) or \<open>c\<close> itself. None of the header-derived strings is \<open>UNKNOWN\<close>, so
  \<open>UNKNOWN\<close> is returned only when it was the current section, and once the threaded section
  differs from \<open>UNKNOWN\<close> it differs from it after every later line.
\<close>

theorem detect_section_closed:
  "(detect_section line c \<in> section_values c \<or> detect_section line c = c) \<and>
   ''UNKNOWN'' \<notin> section_values c \<and>
   (detect_section line c = ''UNKNOWN'' \<longrightarrow> c = ''UNKNOWN'') \<and>
   (\<forall>i j. i \<le> j \<and> j < length lines \<and> track c0 lines ! i \<noteq> ''UNKNOWN''
      \<longrightarrow> track c0 lines ! j \<noteq> ''UNKNOWN'')"
  using detect_section_cases not_unknown_values detect_section_unknown track_later
  by blast

theorem detect_section_closed_witness:
  "track ''UNKNOWN''
     [''Transcript'', ''GUR'', ''COMP1000 X 3.0 A'', ''Major/DSR'', ''3/9 Compulsory'',
      ''1/2 WIE'', ''UNKNOWN''] ! 1 = ''GUR'' \<and>
   track ''UNKNOWN''
     [''Transcript'', ''GUR'', ''COMP1000 X 3.0 A'', ''Major/DSR'', ''3/9 Compulsory'',
      ''1/2 WIE'', ''UNKNOWN''] ! 6 \<noteq> ''UNKNOWN'' \<and>
   detect_section ''UNKNOWN'' ''Major/DSR - WIE'' = ''Major/DSR - WIE''"
proof -
  let ?ls = "[''Transcript'', ''GUR'', ''COMP1000 X 3.0 A'', ''Major/DSR'', ''3/9 Compulsory'',
      ''1/2 WIE'', ''UNKNOWN'']"
  have a: "track ''UNKNOWN'' ?ls ! 1 = ''GUR''" by (subst track_example) simp
  have "(1::nat) \<le> 6 \<and> 6 < length ?ls \<and> track ''UNKNOWN'' ?ls ! 1 \<noteq> ''UNKNOWN''"
    by (subst track_example) simp
  with detect_section_closed [of "''UNKNOWN''" "''Major/DSR - WIE''" ?ls "''UNKNOWN''"]
  have b: "track ''UNKNOWN'' ?ls ! 6 \<noteq> ''UNKNOWN''" by blast
  have c: "detect_section ''UNKNOWN'' ''Major/DSR - WIE'' = ''Major/DSR - WIE''"
    by code_simp
  from a b c show ?thesis by blast
qed

lemma first_credit_append:
  "list_all (\<lambda>t. \<not> CREDIT_RE t) ttl \<Longrightarrow> CREDIT_RE cr \<Longrightarrow>
     first_credit i (ttl @ cr # rest) = Some (i + length ttl)"
  by (induction ttl arbitrary: i) simp_all

lemma parse_shape:
  assumes "py_split line = code # ttl @ cr # rest" "COURSE_CODE_RE code"
    "list_all (\<lambda>t. \<not> CREDIT_RE t) ttl" "CREDIT_RE cr"
  shows "parse_course_from_line line sec =
     Some \<lparr> course_code = code, course_title = py_strip (py_join '' '' ttl),
            credits = credit_float cr,
            result = take_result (snd (strip_term (snd (strip_duplicate rest)))),
            year_sem = fst (strip_term (snd (strip_duplicate rest))),
            duplicate = fst (strip_duplicate rest),
            section_label = sec,
            status = fst (classify_result (take_result (snd (strip_term (snd (strip_duplicate rest)))))),
            grade_point = snd (classify_result (take_result (snd (strip_term (snd (strip_duplicate rest)))))) \<rparr>"
proof -
  have fc: "first_credit (Suc 0) (ttl @ cr # rest) = Some (Suc (length ttl))"
    using first_credit_append [OF assms(3,4), of "Suc 0" rest] by simp
  have nth: "(ttl @ cr # rest) ! length ttl = cr" by simp
  show ?thesis
    unfolding parse_course_from_line_def
    by (simp add: assms(1,2) fc Let_def nth split: prod.splits)
qed

lemma SEM_RE_nonempty: "SEM_RE t \<Longrightarrow> t \<noteq> []"
  by (auto simp: SEM_RE_def)

lemma parse_dup_example:
  "parse_course_from_line ''COMP1234 Service Project 3.0 B Y'' ''GUR'' =
     Some \<lparr> course_code = ''COMP1234'', course_title = ''Service Project'', credits = 3,
            result = ''B'', year_sem = '''', duplicate = True,
            section_label = ''GUR'', status = ''included'', grade_point = Some 3 \<rparr>"
  by code_simp

lemma split_dup_example:
  "py_split ''COMP1234 Service Project 3.0 B Y'' =
     ''COMP1234'' # [''Service'', ''Project''] @ ''3.0'' # [''B'', ''Y'']"
  by code_simp

lemma dup_example_side:
  "COURSE_CODE_RE ''COMP1234'' \<and> list_all (\<lambda>t. \<not> CREDIT_RE t) [''Service'', ''Project''] \<and>
   CREDIT_RE ''3.0'' \<and> \<not> SEM_RE ''B''"
  by code_simp

text \<open>
  Claim C5. After the credits token the remaining tokens are stripped from the right in a
  fixed order: a last token \<open>Y\<close> is removed first and sets \<open>duplicate\<close>; then a last
  token of the form \<open>YYYY/1\<close> or \<open>YYYY/2\<close> is removed and becomes \<open>year_sem\<close>; then the
  first token left, if any, is \<open>result\<close>. In particular a line made of a code, an optional
  title, the credits, a result token that is no term, and \<open>Y\<close> yields a record with
  \<open>duplicate\<close> set and that token as its result.
\<close>

theorem trailing_tokens_order:
  assumes "py_split line = code # ttl @ cr # rest" "COURSE_CODE_RE code"
    "list_all (\<lambda>t. \<not> CREDIT_RE t) ttl" "CREDIT_RE cr"
  shows "\<exists>r. parse_course_from_line line sec = Some r \<and>
     duplicate r = (rest \<noteq> [] \<and> last rest = ''Y'') \<and>
     (let rest1 = (if duplicate r then butlast rest else rest) in
        year_sem r = (if rest1 \<noteq> [] \<and> SEM_RE (last rest1) then last rest1 else '''') \<and>
        (let rest2 = (if year_sem r \<noteq> '''' then butlast rest1 else rest1) in
           result r = (if rest2 = [] then '''' else hd rest2))) \<and>
     (\<forall>res. rest = [res, ''Y''] \<and> \<not> SEM_RE res \<longrightarrow>
        duplicate r \<and> result r = res \<and> year_sem r = '''')"
proof -
  note p = parse_shape [OF assms, of sec]
  show ?thesis
    unfolding p
    by (auto simp: strip_duplicate_def strip_term_def take_result_def Let_def
        dest: SEM_RE_nonempty split: list.splits)
qed

theorem trailing_tokens_order_witness:
  "\<exists>r. parse_course_from_line ''COMP1234 Service Project 3.0 B Y'' ''GUR'' = Some r \<and>
     duplicate r \<and> result r = ''B'' \<and> year_sem r = ''''"
proof -
  have s: "COURSE_CODE_RE ''COMP1234''" "list_all (\<lambda>t. \<not> CREDIT_RE t) [''Service'', ''Project'']"
    "CREDIT_RE ''3.0''" and n: "\<not> SEM_RE ''B''"
    using dup_example_side by blast+
  from trailing_tokens_order [OF split_dup_example s, of "''GUR''"] n
  show ?thesis by blast
qed

section \<open>Deduplicator\<close>

lemma map_of_dict_set: "map_of (dict_set k v kvs) = (map_of kvs)(k \<mapsto> v)"
  by (induction kvs) (auto simp: fun_eq_iff)

lemma keys_dict_set_old:
  "k \<in> fst ` set kvs \<Longrightarrow> map fst (dict_set k v kvs) = map fst kvs"
proof (induction kvs)
  case Nil
  then show ?case by simp
next
  case (Cons p kvs)
  show ?case
  proof (cases "fst p = k")
    case True
    then show ?thesis by (cases p) simp
  next
    case False
    with Cons.prems have "k \<in> fst ` set kvs" by auto
    with Cons.IH False show ?thesis by (cases p) simp
  qed
qed

lemma keys_dict_set_new:
  "k \<notin> fst ` set kvs \<Longrightarrow> map fst (dict_set k v kvs) = map fst kvs @ [k]"
  by (induction kvs) auto

lemma distinct_dict_set: "distinct (map fst kvs) \<Longrightarrow> distinct (map fst (dict_set k v kvs))"
  by (cases "k \<in> fst ` set kvs") (simp_all add: keys_dict_set_old keys_dict_set_new)

lemma values_dict_set_new:
  "map_of kvs k = None \<Longrightarrow> map snd (dict_set k v kvs) = map snd kvs @ [v]"
  by (induction kvs) (auto split: if_splits)

lemma values_dict_set_old:
  "map_of kvs k = Some c \<Longrightarrow>
     mset (map snd (dict_set k v kvs)) + {#c#} = mset (map snd kvs) + {#v#}"
  by (induction kvs) (auto split: if_splits)

lemma set_dict_set: "set (dict_set k v kvs) \<subseteq> insert (k, v) (set kvs)"
  by (induction kvs) (auto split: if_splits)

lemma dedup_loop_refs:
  "dedup_loop rs ch lg = (ch', lg') \<Longrightarrow>
     image_mset record_ref (mset (map snd ch')) + mset (map log_ref lg') =
     image_mset record_ref (mset (map snd ch)) + mset (map log_ref lg) + mset (map record_ref rs)"
proof (induction rs arbitrary: ch lg)
  case Nil
  then show ?case by simp
next
  case (Cons r rs)
  show ?case
  proof (cases "map_of ch (course_code r)")
    case None
    with Cons.prems have "dedup_loop rs (dict_set (course_code r) r ch) lg = (ch', lg')"
      by simp
    from Cons.IH [OF this] show ?thesis
      by (simp add: values_dict_set_new [OF None])
  next
    case (Some c)
    show ?thesis
    proof (cases "score c < score r")
      case True
      let ?l = "\<lparr> log_course_code = course_code c, dropped_section = section_label c,
                   kept_section = section_label r,
                   reason = ''dedup_replaced_with_higher_priority_record'' \<rparr>"
      from Cons.prems Some True
      have "dedup_loop rs (dict_set (course_code r) r ch) (lg @ [?l]) = (ch', lg')"
        by simp
      moreover have l: "log_ref ?l = record_ref c"
        by (simp add: log_ref_def record_ref_def)
      ultimately
      have "image_mset record_ref (mset (map snd ch')) + mset (map log_ref lg') =
            image_mset record_ref (mset (map snd (dict_set (course_code r) r ch))) +
            {#record_ref c#} + mset (map log_ref lg) + mset (map record_ref rs)"
        using Cons.IH [of "dict_set (course_code r) r ch" "lg @ [?l]"] by simp
      also have "image_mset record_ref (mset (map snd (dict_set (course_code r) r ch))) +
            {#record_ref c#} =
            image_mset record_ref (mset (map snd (dict_set (course_code r) r ch)) + {#c#})"
        by simp
      also have "\<dots> = image_mset record_ref (mset (map snd ch) + {#r#})"
        by (simp only: values_dict_set_old [OF Some])
      finally show ?thesis by simp
    next
      case False
      let ?l = "\<lparr> log_course_code = course_code r, dropped_section = section_label r,
                   kept_section = section_label c,
                   reason = ''dedup_dropped_lower_priority_record'' \<rparr>"
      from Cons.prems Some False
      have "dedup_loop rs ch (lg @ [?l]) = (ch', lg')"
        by simp
      moreover have "log_ref ?l = record_ref r"
        by (simp add: log_ref_def record_ref_def)
      ultimately show ?thesis
        using Cons.IH [of ch "lg @ [?l]"] by simp
    qed
  qed
qed

lemma dedup_loop_distinct:
  "dedup_loop rs ch lg = (ch', lg') \<Longrightarrow> distinct (map fst ch) \<Longrightarrow> distinct (map fst ch')"
proof (induction rs arbitrary: ch lg)
  case Nil
  then show ?case by simp
next
  case (Cons r rs)
  then show ?case
    by (auto simp: Let_def dest: distinct_dict_set split: option.splits if_splits)
qed

lemma dedup_loop_keyed:
  "dedup_loop rs ch lg = (ch', lg') \<Longrightarrow> (\<forall>(k, v) \<in> set ch. course_code v = k) \<Longrightarrow>
     (\<forall>(k, v) \<in> set ch'. course_code v = k)"
proof (induction rs arbitrary: ch lg)
  case Nil
  then show ?case by simp
next
  case (Cons r rs)
  have keyed: "\<forall>(k, v) \<in> set (dict_set (course_code r) r ch). course_code v = k"
    using Cons.prems(2) set_dict_set [of "course_code r" r ch] by auto
  from Cons.prems(1) show ?case
    by (auto simp: Let_def split: option.splits if_splits
        dest: Cons.IH [OF _ keyed] Cons.IH [OF _ Cons.prems(2)])
qed

lemma dedup_loop_lookup:
  "dedup_loop rs ch lg = (ch', lg') \<Longrightarrow>
     map_of ch' k =
       (case map_of ch k of
          None \<Rightarrow> (case same_code k rs of [] \<Rightarrow> None | g # gs \<Rightarrow> Some (resolve g gs))
        | Some c \<Rightarrow> Some (resolve c (same_code k rs)))"
proof (induction rs arbitrary: ch lg)
  case Nil
  then show ?case by (simp add: same_code_def split: option.splits)
next
  case (Cons r rs)
  show ?case
  proof (cases "map_of ch (course_code r)")
    case None
    with Cons.prems have "dedup_loop rs (dict_set (course_code r) r ch) lg = (ch', lg')"
      by simp
    from Cons.IH [OF this] None show ?thesis
      by (auto simp: map_of_dict_set same_code_def split: option.splits)
  next
    case (Some c)
    show ?thesis
    proof (cases "score c < score r")
      case True
      with Cons.prems Some obtain l where
        "dedup_loop rs (dict_set (course_code r) r ch) (lg @ [l]) = (ch', lg')"
        by simp
      from Cons.IH [OF this] Some True show ?thesis
        by (auto simp: map_of_dict_set same_code_def split: option.splits)
    next
      case False
      with Cons.prems Some obtain l where "dedup_loop rs ch (lg @ [l]) = (ch', lg')"
        by simp
      from Cons.IH [OF this] Some False show ?thesis
        by (auto simp: same_code_def split: option.splits)
    qed
  qed
qed

lemma resolve_upper: "r \<in> set (g # gs) \<Longrightarrow> score r \<le> score (resolve g gs)"
proof (induction gs arbitrary: g r)
  case Nil
  then show ?case by simp
next
  case (Cons x xs)
  show ?case
  proof (cases "score g < score x")
    case True
    have "score x \<le> score (resolve x xs)" using Cons.IH [of x x] by simp
    with True Cons.prems Cons.IH [of r x] show ?thesis by auto
  next
    case False
    have "score g \<le> score (resolve g xs)" using Cons.IH [of g g] by simp
    with False Cons.prems Cons.IH [of r g] show ?thesis by auto
  qed
qed

lemma resolve_first_max:
  "\<exists>pre post. g # gs = pre @ resolve g gs # post \<and>
     (\<forall>r \<in> set pre. score r < score (resolve g gs))"
proof (induction gs arbitrary: g)
  case Nil
  show ?case by (intro exI [of _ "[]"]) simp
next
  case (Cons x xs)
  show ?case
  proof (cases "score g < score x")
    case True
    then have r: "resolve g (x # xs) = resolve x xs" by simp
    from Cons.IH [of x] obtain pre post where
      p: "x # xs = pre @ resolve x xs # post" "\<forall>r \<in> set pre. score r < score (resolve x xs)"
      by blast
    have "score x \<le> score (resolve x xs)" using resolve_upper [of x x xs] by simp
    with True have gl: "score g < score (resolve x xs)" by simp
    from p(1) have e: "g # x # xs = (g # pre) @ resolve x xs # post" by simp
    from p(2) gl have "\<forall>r \<in> set (g # pre). score r < score (resolve x xs)" by simp
    with e show ?thesis unfolding r by blast
  next
    case False
    then have r: "resolve g (x # xs) = resolve g xs" by simp
    from Cons.IH [of g] obtain pre post where
      p: "g # xs = pre @ resolve g xs # post" "\<forall>r \<in> set pre. score r < score (resolve g xs)"
      by blast
    show ?thesis
    proof (cases pre)
      case Nil
      with p(1) have "resolve g xs = g" by (metis append_Nil list.inject)
      then have "g # x # xs = [] @ resolve g xs # (x # xs)" by simp
      moreover have "\<forall>r \<in> set []. score r < score (resolve g xs)" by simp
      ultimately show ?thesis unfolding r by blast
    next
      case (Cons a pre')
      with p(1) have "g # xs = a # (pre' @ resolve g xs # post)" by (metis append_Cons)
      then have a: "a = g" and xs: "xs = pre' @ resolve g xs # post"
        by (metis list.inject)+
      from p(2) Cons a have gl: "score g < score (resolve g xs)" by simp
      with False have xl: "score x < score (resolve g xs)" by simp
      from xs have e: "g # x # xs = (g # x # pre') @ resolve g xs # post"
        by (metis append_Cons)
      from p(2) Cons gl xl
      have "\<forall>r \<in> set (g # x # pre'). score r < score (resolve g xs)" by simp
      with e show ?thesis unfolding r by blast
    qed
  qed
qed
lemma dedup_example:
  "dedup_by_course_code [rec_unknown, rec_excluded, rec_included] =
     ([rec_included, rec_excluded],
      [\<lparr> log_course_code = ''COMP1234'', dropped_section = ''Major/DSR - COMP Elective'',
          kept_section = ''Major/DSR - Compulsory'',
          reason = ''dedup_replaced_with_higher_priority_record'' \<rparr>])"
  by (simp add: dedup_by_course_code_def rec_unknown_def rec_excluded_def rec_included_def
      score_def less_prod_def Let_def)

text \<open>
  Claim C1. For every ordered list of records, \<open>dedup_by_course_code\<close> keeps exactly one
  record for each course code of the input. The record kept for a code is the outcome of the
  left-to-right resolution over the records of that code in input order, where only a strictly
  higher priority tuple replaces the record kept so far: it has the highest tuple among them
  and every record of the code before it has a strictly lower one (ties keep the earlier
  record). Every record that is not kept is named by one log entry, its code and section
  being the entry's \<open>course_code\<close> and \<open>dropped_section\<close>: the kept records together with the
  log entries make up the input, as multisets of course codes and in number.
\<close>

theorem dedup_by_course_code_correct:
  assumes "dedup_by_course_code records = (kept, logs)"
  shows "distinct (map course_code kept) \<and>
     set (map course_code kept) = set (map course_code records) \<and>
     (\<forall>k \<in> set kept. \<exists>g gs pre post.
        same_code (course_code k) records = g # gs \<and> k = resolve g gs \<and>
        g # gs = pre @ k # post \<and>
        (\<forall>r \<in> set pre. score r < score k) \<and> (\<forall>r \<in> set post. score r \<le> score k)) \<and>
     mset (map record_ref kept) + mset (map log_ref logs) = mset (map record_ref records) \<and>
     mset (map course_code kept) + mset (map log_course_code logs) =
       mset (map course_code records) \<and>
     length kept + length logs = length records"
proof -
  from assms obtain ch where dl: "dedup_loop records [] [] = (ch, logs)"
    and kept: "kept = map snd ch"
    by (auto simp: dedup_by_course_code_def split: prod.splits)
  have dist: "distinct (map fst ch)"
    using dedup_loop_distinct [OF dl] by simp
  have keyed: "\<forall>(k, v) \<in> set ch. course_code v = k"
    using dedup_loop_keyed [OF dl] by simp
  have codes: "map course_code kept = map fst ch"
    unfolding kept using keyed by (induction ch) auto
  have look: "map_of ch k =
      (case same_code k records of [] \<Rightarrow> None | g # gs \<Rightarrow> Some (resolve g gs))" for k
    using dedup_loop_lookup [OF dl, of k] by simp
  have c1: "distinct (map course_code kept)"
    using dist codes by simp
  have c2: "set (map course_code kept) = set (map course_code records)"
  proof -
    have "k \<in> set (map fst ch) \<longleftrightarrow> k \<in> set (map course_code records)" for k
    proof -
      have "k \<in> set (map fst ch) \<longleftrightarrow> map_of ch k \<noteq> None"
        by (simp add: map_of_eq_None_iff)
      also have "\<dots> \<longleftrightarrow> same_code k records \<noteq> []"
        by (simp add: look split: list.splits)
      also have "\<dots> \<longleftrightarrow> k \<in> set (map course_code records)"
        by (auto simp: same_code_def filter_empty_conv)
      finally show ?thesis .
    qed
    then show ?thesis unfolding codes by blast
  qed
  have c3: "\<exists>g gs pre post.
        same_code (course_code k) records = g # gs \<and> k = resolve g gs \<and>
        g # gs = pre @ k # post \<and>
        (\<forall>r \<in> set pre. score r < score k) \<and> (\<forall>r \<in> set post. score r \<le> score k)"
    if "k \<in> set kept" for k
  proof -
    from that kept obtain key where m: "(key, k) \<in> set ch" by auto
    with keyed have "key = course_code k" by auto
    with m dist have "map_of ch (course_code k) = Some k" by simp
    with look [of "course_code k"] obtain g gs where
      g: "same_code (course_code k) records = g # gs" and r: "k = resolve g gs"
      by (auto split: list.splits)
    from resolve_first_max [of g gs] r obtain pre post where
      p: "g # gs = pre @ k # post" "\<forall>r \<in> set pre. score r < score k"
      by blast
    have "\<forall>x \<in> set post. score x \<le> score k"
    proof
      fix x assume "x \<in> set post"
      then have "x \<in> set (g # gs)" unfolding p(1) by simp
      from resolve_upper [OF this] r show "score x \<le> score k" by simp
    qed
    with g r p show ?thesis by blast
  qed
  have c4: "mset (map record_ref kept) + mset (map log_ref logs) = mset (map record_ref records)"
    using dedup_loop_refs [OF dl] by (simp add: kept multiset.map_comp)
  have c5: "mset (map course_code kept) + mset (map log_course_code logs) =
       mset (map course_code records)"
  proof -
    have "image_mset fst (mset (map record_ref kept) + mset (map log_ref logs)) =
          image_mset fst (mset (map record_ref records))"
      by (simp only: c4)
    then show ?thesis
      by (simp add: image_mset.compositionality comp_def record_ref_def log_ref_def)
  qed
  have c6: "length kept + length logs = length records"
  proof -
    have "size (mset (map record_ref kept) + mset (map log_ref logs)) =
          size (mset (map record_ref records))"
      by (simp only: c4)
    then show ?thesis by simp
  qed
  from c1 c2 c3 c4 c5 c6 show ?thesis by blast
qed

theorem dedup_by_course_code_correct_witness:
  "dedup_by_course_code [rec_unknown, rec_excluded, rec_included] =
     ([rec_included, rec_excluded],
      [\<lparr> log_course_code = ''COMP1234'', dropped_section = ''Major/DSR - COMP Elective'',
          kept_section = ''Major/DSR - Compulsory'',
          reason = ''dedup_replaced_with_higher_priority_record'' \<rparr>]) \<and>
   distinct (map course_code [rec_included, rec_excluded]) \<and>
   length [rec_included, rec_excluded] + 1 = length [rec_unknown, rec_excluded, rec_included] \<and>
   same_code ''COMP1234'' [rec_unknown, rec_excluded, rec_included] = [rec_unknown, rec_included] \<and>
   score rec_unknown < score rec_included"
proof -
  have a: "same_code ''COMP1234'' [rec_unknown, rec_excluded, rec_included] =
      [rec_unknown, rec_included]"
    by (simp add: same_code_def rec_unknown_def rec_excluded_def rec_included_def)
  have b: "score rec_unknown < score rec_included"
    by (simp add: score_def rec_unknown_def rec_included_def less_prod_def)
  from dedup_by_course_code_correct [OF dedup_example] dedup_example a b
  show ?thesis by simp
qed

section \<open>Aggregator\<close>



lemma parse_rec_a_plus:
  "parse_course_from_line ''COMP1011 Programming 1.0 A+ 2023/1'' ''GUR'' = Some rec_a_plus"
  unfolding rec_a_plus_def by code_simp

lemma parse_rec_b:
  "parse_course_from_line ''COMP2011 Data Structures 2.0 B 2023/2'' ''GUR'' = Some rec_b"
  unfolding rec_b_def by code_simp


lemma py_round_example: "py_round (103 / 30) 3 = 3433 / 1000"
  by code_simp






section \<open>Goal projection\<close>








lemma goal_above_scale:
  "compute_goal_strategy 0 108 109 5 =
     Inr \<lparr> goal_cgpa = 5, total_required_credits = 109, remaining_credits = 1,
           required_average_gp = Some 545,
           required_letter_equivalent = Some ''~A+'' \<rparr>"
  by code_simp





section \<open>Orchestrator\<close>


lemma cgpa_odd:
  "compute_cgpa [rec_odd] =
     Inr \<lparr> current_cgpa = Some (43 / 10), total_credits_counted = 3 / 10,
           grade_points_sum = 559 / 500 \<rparr>"
  by code_simp









end
